theory Spec2Isabelle
  imports Main "HOL-Library.Multiset"
begin

section \<open>Inventory aging report (streamlit\_app.py)\<close>

text \<open>
  The script buckets every SKU of \<open>df_inventario\<close> by the number of days since its last
  invoice (\<open>pd.cut\<close>, lines 32-41), counts the SKUs per bucket (lines 44-47) and, when a
  bar of the chart is selected, renders the detail of that bucket (lines 84-120).

  A Python \<open>str\<close> is modelled as a \<open>string\<close> holding its UTF-8 bytes: the script only
  compares strings for equality and tests \<open>sub in s\<close>, and both agree on code points and on
  their UTF-8 encoding. Bytes outside ASCII are written \<open>CHR 0x..\<close>.
\<close>

subsection \<open>Bucket edges and labels (lines 32-33)\<close>

text \<open>
  \<open>bins = [0, 90, 180, 365, 730, float('inf')]\<close>: an edge is a number or \<open>+inf\<close>. The
  column \<open>Dias_Ultima_Factura\<close> holds integers, so an edge is only ever compared with an
  integer: \<open>edge_le b x\<close> is \<open>b <= x\<close>.
\<close>

datatype edge = Num int | PInf

fun edge_le :: "edge \<Rightarrow> int \<Rightarrow> bool" where
  "edge_le (Num b) x = (b \<le> x)"
| "edge_le PInf x = False"

definition bins :: "edge list" where
  "bins = [Num 0, Num 90, Num 180, Num 365, Num 730, PInf]"

definition labels :: "string list" where
  "labels =
     [''0-3 Meses (Activo)'',
      ''3-6 Meses (Monitoreo)'',
      ''6-12 Meses (Riesgo)'',
      ''12-24 Meses (Obsoleto)'',
      ''+24 Meses (Cr'' @ [CHR 0xC3, CHR 0xAD] @ ''tico)'']"

subsection \<open>pd.cut with right=False, include\_lowest=True (lines 35-41)\<close>

text \<open>
  pandas computes \<open>ids = bins.searchsorted(x, side='right')\<close> (the number of edges
  \<open><= x\<close> of the increasing \<open>bins\<close>), sets \<open>ids\<close> to 1 where \<open>x == bins[0]\<close>
  (\<open>include_lowest\<close>), masks as missing every value with \<open>ids == 0\<close> or
  \<open>ids == len(bins)\<close>, and takes \<open>labels[ids - 1]\<close> elsewhere. A missing value (NaN of
  the categorical column) is \<open>None\<close>; no error is raised for a value outside the bins.
\<close>

definition searchsorted_right :: "edge list \<Rightarrow> int \<Rightarrow> nat" where
  "searchsorted_right bs x = length (takeWhile (\<lambda>b. edge_le b x) bs)"

definition pd_cut :: "edge list \<Rightarrow> string list \<Rightarrow> int \<Rightarrow> string option" where
  "pd_cut bs ls x =
     (let ids0 = searchsorted_right bs x;
          ids = (case bs of [] \<Rightarrow> ids0 | b0 # _ \<Rightarrow> if b0 = Num x then 1 else ids0)
      in if ids = length bs \<or> ids = 0 then None else Some (ls ! (ids - 1)))"

text \<open>The value of the column \<open>Categoria_Antiguedad\<close> in a row whose
  \<open>Dias_Ultima_Factura\<close> is \<open>d\<close> (the spec's \<open>classify\<close>).\<close>

definition Categoria_Antiguedad :: "int \<Rightarrow> string option" where
  "Categoria_Antiguedad d = pd_cut bins labels d"

text \<open>The half-open day range \<open>[lo, hi)\<close> of the \<open>i\<close>-th label: two consecutive edges.\<close>

definition bucket_range :: "nat \<Rightarrow> edge \<times> edge" where
  "bucket_range i = (bins ! i, bins ! Suc i)"

fun in_range :: "int \<Rightarrow> edge \<times> edge \<Rightarrow> bool" where
  "in_range d (lo, hi) = (edge_le lo d \<and> \<not> edge_le hi d)"

subsection \<open>Rows of df\_inventario (lines 13-27)\<close>

text \<open>
  One row per SKU, with the columns of \<open>generate_data\<close>. The float64 columns have the
  abstract type \<open>'f\<close>: the script never inspects them outside the two metrics below.
  \<open>Fecha_Ultima_Compra\<close> is a day number.
\<close>

record 'f fila =
  SKU :: string
  Existencia_Actual :: int
  Costo_Unitario :: 'f
  Precio_Venta_Unitario :: 'f
  Utilidad_Unitaria :: 'f
  Margen_Utilidad_Porcentaje :: 'f
  Dias_Ultima_Factura :: int
  Fecha_Ultima_Compra :: int
  Cliente_Mas_Reciente :: string

text \<open>The column \<open>df_inventario['Categoria_Antiguedad']\<close> (line 35).\<close>

definition columna_categoria :: "'f fila list \<Rightarrow> string option list" where
  "columna_categoria df = map (\<lambda>r. Categoria_Antiguedad (Dias_Ultima_Factura r)) df"

subsection \<open>The counts per category (lines 44-47)\<close>

text \<open>
  \<open>value_counts()\<close> of a categorical column counts the codes of the non-missing values
  with \<open>np.bincount(codes, minlength=len(categories))\<close>: one count for every category of
  the column, also a category that no value has, and none for the missing values. It then
  sorts the counts in descending order. pandas sorts descending by reversing, sorting
  ascending and reversing again; the model's sort is stable, NumPy's default one need not
  be, and the order of equal counts is the only place where that can show.
\<close>

definition bincount :: "string list \<Rightarrow> string option list \<Rightarrow> (string \<times> nat) list" where
  "bincount cats col = map (\<lambda>c. (c, count_list col (Some c))) cats"

definition sort_values_desc :: "('a \<Rightarrow> 'k::linorder) \<Rightarrow> 'a list \<Rightarrow> 'a list" where
  "sort_values_desc key rows = rev (sort_key key (rev rows))"

definition value_counts :: "string list \<Rightarrow> string option list \<Rightarrow> (string \<times> nat) list" where
  "value_counts cats col = sort_values_desc snd (bincount cats col)"

text \<open>
  Line 46 turns the category column of the counts into an ordered categorical over
  \<open>labels\<close>: a value is represented by its position in \<open>labels\<close> (its code), a value
  that is not a label is missing. Line 47 sorts the rows by that code, missing values
  last.
\<close>

fun index_of :: "'a list \<Rightarrow> 'a \<Rightarrow> nat option" where
  "index_of [] y = None"
| "index_of (x # xs) y = (if x = y then Some 0 else map_option Suc (index_of xs y))"

definition categoria_key :: "string list \<Rightarrow> string \<times> nat \<Rightarrow> nat" where
  "categoria_key cats row = (case index_of cats (fst row) of Some i \<Rightarrow> i | None \<Rightarrow> length cats)"

definition df_conteo :: "'f fila list \<Rightarrow> (string \<times> nat) list" where
  "df_conteo df = sort_key (categoria_key labels) (value_counts labels (columna_categoria df))"

subsection \<open>The detail of a selected category (lines 84-120)\<close>

text \<open>
  Line 91 compares the categorical column with the selected label. pandas compares codes
  when the label is one of the column's categories (a missing value has code -1 and
  equals nothing); for any other scalar \<open>==\<close> is an invalid comparison, whose result is
  False in every row, without an error.
\<close>

definition categorical_eq :: "string list \<Rightarrow> string option \<Rightarrow> string \<Rightarrow> bool" where
  "categorical_eq cats v other =
     (if other \<in> set cats
      then (case v of None \<Rightarrow> False | Some c \<Rightarrow> index_of cats c = index_of cats other)
      else False)"

definition df_detalle :: "string \<Rightarrow> 'f fila list \<Rightarrow> 'f fila list" where
  "df_detalle sel df =
     filter (\<lambda>r. categorical_eq labels (Categoria_Antiguedad (Dias_Ultima_Factura r)) sel) df"

text \<open>Python's \<open>sub in s\<close> on strings.\<close>

fun startswith :: "string \<Rightarrow> string \<Rightarrow> bool" where
  "startswith [] s = True"
| "startswith (p # ps) [] = False"
| "startswith (p # ps) (c # cs) = (p = c \<and> startswith ps cs)"

fun str_in :: "string \<Rightarrow> string \<Rightarrow> bool" where
  "str_in sub [] = (sub = [])"
| "str_in sub (c # cs) = (startswith sub (c # cs) \<or> str_in sub cs)"

text \<open>
  The float64 arithmetic of the two metrics and Python's float formatting are parameters
  of the model: \<open>times_int\<close> is int64 times float64, \<open>series_sum\<close> and \<open>series_mean\<close>
  are \<open>Series.sum\<close> and \<open>Series.mean\<close>, \<open>format_comma_2f\<close> and \<open>format_2f\<close> are the
  format specifications \<open>,.2f\<close> and \<open>.2f\<close>.
\<close>

record 'f float_ops =
  times_int :: "int \<Rightarrow> 'f \<Rightarrow> 'f"
  series_sum :: "'f list \<Rightarrow> 'f"
  series_mean :: "'f list \<Rightarrow> 'f"
  format_comma_2f :: "'f \<Rightarrow> string"
  format_2f :: "'f \<Rightarrow> string"

text \<open>What the script renders, in order: one constructor per Streamlit call.\<close>

datatype metric_value = IntValue nat | StrValue string

datatype 'f widget =
    St_divider
  | St_subheader string
  | St_metric string metric_value
  | St_dataframe "'f fila list"
  | St_error string
  | St_success string
  | St_info string

definition mensaje_critico :: string where
  "mensaje_critico =
     [CHR 0xE2, CHR 0x9A, CHR 0xA0, CHR 0xEF, CHR 0xB8, CHR 0x8F] @ '' **Acci'' @
     [CHR 0xC3, CHR 0xB3] @ ''n Comercial Requerida:** Productos con nula rotaci'' @
     [CHR 0xC3, CHR 0xB3] @ ''n. Se recomienda remate o devoluci'' @
     [CHR 0xC3, CHR 0xB3] @ ''n a proveedor para liberar flujo.''"

definition mensaje_activo :: string where
  "mensaje_activo =
     [CHR 0xE2, CHR 0x9C, CHR 0x85] @ '' **Estado '' @ [CHR 0xC3, CHR 0x93] @
     ''ptimo:** Productos con alta rotaci'' @ [CHR 0xC3, CHR 0xB3] @
     ''n. Revisar que los puntos de reorden est'' @ [CHR 0xC3, CHR 0xA9] @
     ''n actualizados.''"

definition mensaje_sin_datos :: string where
  "mensaje_sin_datos =
     ''No hay datos para esta selecci'' @ [CHR 0xC3, CHR 0xB3] @ ''n.''"

definition mensaje_sin_seleccion :: string where
  "mensaje_sin_seleccion =
     [CHR 0xF0, CHR 0x9F, CHR 0x91, CHR 0x86] @ '' Selecciona una barra del gr'' @
     [CHR 0xC3, CHR 0xA1] @ ''fico para desplegar el an'' @ [CHR 0xC3, CHR 0xA1] @
     ''lisis de SKUs, utilidad y existencias.''"

text \<open>Lines 88-89: the divider and the subheader, rendered before the rows are filtered.\<close>

definition encabezado :: "string \<Rightarrow> 'f widget list" where
  "encabezado sel =
     [St_divider,
      St_subheader ([CHR 0xF0, CHR 0x9F, CHR 0x94, CHR 0x8D] @ '' Detalle Maestro: '' @ sel)]"

text \<open>Lines 101-104: the three metrics over the filtered rows.\<close>

definition metricas :: "'f float_ops \<Rightarrow> 'f fila list \<Rightarrow> 'f widget list" where
  "metricas ops d =
     [St_metric (''SKUs en Categor'' @ [CHR 0xC3, CHR 0xAD] @ ''a'') (IntValue (length d)),
      St_metric (''Inversi'' @ [CHR 0xC3, CHR 0xB3] @ ''n Total'')
        (StrValue (''$'' @ format_comma_2f ops (series_sum ops
           (map (\<lambda>r. times_int ops (Existencia_Actual r) (Costo_Unitario r)) d)))),
      St_metric ''Margen Promedio''
        (StrValue (format_2f ops (series_mean ops (map Margen_Utilidad_Porcentaje d)) @ ''%''))]"

text \<open>Lines 106-110: the rows shown, sorted by \<open>Dias_Ultima_Factura\<close>, descending; rows
  with equal days are in the order a stable sort leaves them, which NumPy's default sort
  need not keep. The nine columns of \<open>columnas_display\<close> are the nine fields of a row.\<close>

definition tabla :: "'f fila list \<Rightarrow> 'f fila list" where
  "tabla d = sort_values_desc Dias_Ultima_Factura d"

text \<open>Lines 113-116: the conditional insight.\<close>

definition insight :: "string \<Rightarrow> 'f widget list" where
  "insight sel =
     (if str_in (''Cr'' @ [CHR 0xC3, CHR 0xAD] @ ''tico'') sel then [St_error mensaje_critico]
      else if str_in ''Activo'' sel then [St_success mensaje_activo]
      else [])"

text \<open>Lines 86-118: everything rendered for the selected label \<open>sel\<close> (the spec's
  \<open>detail\<close>).\<close>

definition detalle :: "'f float_ops \<Rightarrow> string \<Rightarrow> 'f fila list \<Rightarrow> 'f widget list" where
  "detalle ops sel df =
     encabezado sel @
     (let d = df_detalle sel df
      in if d \<noteq> [] then metricas ops d @ [St_dataframe (tabla d)] @ insight sel
         else [St_info mensaje_sin_datos])"

text \<open>Lines 84 and 119-120: \<open>points\<close> are the \<open>x\<close> values of the selected points of the
  chart event, empty when there is no event or no selection; the first one is used.\<close>

definition render :: "'f float_ops \<Rightarrow> string list \<Rightarrow> 'f fila list \<Rightarrow> 'f widget list" where
  "render ops points df =
     (case points of [] \<Rightarrow> [St_info mensaje_sin_seleccion] | x # _ \<Rightarrow> detalle ops x df)"

subsection \<open>Example data\<close>

text \<open>
  Two rows, 10 and 800 days after their last invoice, with the float columns in
  hundredths, and float operations that are exact on hundredths and render no digits.
\<close>

definition fila_10 :: "int fila" where
  "fila_10 =
     \<lparr>SKU = ''SKU-0000'', Existencia_Actual = 5, Costo_Unitario = 10000,
      Precio_Venta_Unitario = 15000, Utilidad_Unitaria = 5000,
      Margen_Utilidad_Porcentaje = 3333, Dias_Ultima_Factura = 10,
      Fecha_Ultima_Compra = 0, Cliente_Mas_Reciente = ''Cliente_A''\<rparr>"

definition fila_800 :: "int fila" where
  "fila_800 =
     \<lparr>SKU = ''SKU-0001'', Existencia_Actual = 2, Costo_Unitario = 5000,
      Precio_Venta_Unitario = 6000, Utilidad_Unitaria = 1000,
      Margen_Utilidad_Porcentaje = 1667, Dias_Ultima_Factura = 800,
      Fecha_Ultima_Compra = 1, Cliente_Mas_Reciente = ''Cliente_B''\<rparr>"

definition fila_negativa :: "int fila" where
  "fila_negativa = fila_10\<lparr>SKU := ''SKU-0002'', Dias_Ultima_Factura := - 1\<rparr>"

definition ops_ejemplo :: "int float_ops" where
  "ops_ejemplo =
     \<lparr>times_int = (\<lambda>n x. n * x), series_sum = sum_list,
      series_mean = (\<lambda>xs. sum_list xs div int (length xs)),
      format_comma_2f = (\<lambda>x. []), format_2f = (\<lambda>x. [])\<rparr>"

section \<open>The classifier\<close>

lemma Categoria_Antiguedad_table:
  "Categoria_Antiguedad d =
     (if d < 0 then None
      else if d < 90 then Some (labels ! 0)
      else if d < 180 then Some (labels ! 1)
      else if d < 365 then Some (labels ! 2)
      else if d < 730 then Some (labels ! 3)
      else Some (labels ! 4))"
  by (simp add: Categoria_Antiguedad_def pd_cut_def searchsorted_right_def bins_def
      eval_nat_numeral)

lemma distinct_labels: "distinct labels"
  by (simp add: labels_def)

lemma length_labels: "length labels = 5"
  by (simp add: labels_def)

lemma nth_labels_mem: "i < 5 \<Longrightarrow> labels ! i \<in> set labels"
  by (simp add: length_labels)

lemma Categoria_Antiguedad_in_labels:
  "Categoria_Antiguedad d = Some c \<Longrightarrow> c \<in> set labels"
  by (auto simp: Categoria_Antiguedad_table nth_labels_mem split: if_splits)

lemma Categoria_Antiguedad_None_iff: "Categoria_Antiguedad d = None \<longleftrightarrow> d < 0"
  by (simp add: Categoria_Antiguedad_table)

lemma Categoria_Antiguedad_Some_iff:
  "Categoria_Antiguedad d \<in> Some ` set labels \<longleftrightarrow> 0 \<le> d"
proof (cases "Categoria_Antiguedad d")
  case None
  moreover from None have "d < 0" by (simp add: Categoria_Antiguedad_None_iff)
  ultimately show ?thesis by auto
next
  case (Some c)
  then have "c \<in> set labels" by (rule Categoria_Antiguedad_in_labels)
  moreover from Some have "\<not> d < 0" by (simp add: Categoria_Antiguedad_table split: if_splits)
  ultimately show ?thesis using Some by simp
qed

text \<open>
  Claim C1. For every non-negative number of days \<open>d\<close> the classifier returns exactly one
  of the five labels, and \<open>d\<close> lies in the half-open range \<open>[lo, hi)\<close> of that label's
  two edges. At the boundaries: 89 is in the first bucket, 90 in the second, 729 in the
  fourth and 730 in the last. The spec's English names (0-3 Months, ..., +24 Months) stand
  for the labels of line 33, in their order.
\<close>

theorem classify_one_category_in_range:
  "(0 \<le> d \<longrightarrow>
      (\<exists>i<5. Categoria_Antiguedad d = Some (labels ! i) \<and> in_range d (bucket_range i) \<and>
         (\<forall>j<5. Categoria_Antiguedad d = Some (labels ! j) \<longrightarrow> j = i))) \<and>
   Categoria_Antiguedad 89 = Some ''0-3 Meses (Activo)'' \<and>
   Categoria_Antiguedad 90 = Some ''3-6 Meses (Monitoreo)'' \<and>
   Categoria_Antiguedad 729 = Some ''12-24 Meses (Obsoleto)'' \<and>
   Categoria_Antiguedad 730 = Some (''+24 Meses (Cr'' @ [CHR 0xC3, CHR 0xAD] @ ''tico)'')"
proof (intro conjI impI)
  assume nonneg: "0 \<le> d"
  have inj: "\<And>i j. i < 5 \<Longrightarrow> j < 5 \<Longrightarrow> labels ! i = labels ! j \<Longrightarrow> i = j"
    using distinct_labels by (simp add: nth_eq_iff_index_eq length_labels)
  consider "d < 90" | "90 \<le> d" "d < 180" | "180 \<le> d" "d < 365" | "365 \<le> d" "d < 730" | "730 \<le> d"
    by linarith
  then show "\<exists>i<5. Categoria_Antiguedad d = Some (labels ! i) \<and> in_range d (bucket_range i) \<and>
         (\<forall>j<5. Categoria_Antiguedad d = Some (labels ! j) \<longrightarrow> j = i)"
  proof cases
    case 1
    with nonneg show ?thesis
      by (intro exI[of _ 0]) (auto simp: Categoria_Antiguedad_table bucket_range_def bins_def dest: inj[rotated 2])
  next
    case 2
    then show ?thesis
      by (intro exI[of _ 1]) (auto simp: Categoria_Antiguedad_table bucket_range_def bins_def dest: inj[rotated 2])
  next
    case 3
    then show ?thesis
      by (intro exI[of _ 2]) (auto simp: Categoria_Antiguedad_table bucket_range_def bins_def dest: inj[rotated 2])
  next
    case 4
    then show ?thesis
      by (intro exI[of _ 3]) (auto simp: Categoria_Antiguedad_table bucket_range_def bins_def dest: inj[rotated 2])
  next
    case 5
    then show ?thesis
      by (intro exI[of _ 4]) (auto simp: Categoria_Antiguedad_table bucket_range_def bins_def dest: inj[rotated 2])
  qed
qed (simp_all add: Categoria_Antiguedad_table labels_def)

theorem classify_one_category_in_range_witness:
  "(0::int) \<le> 200 \<and>
   (\<exists>i<5. Categoria_Antiguedad 200 = Some (labels ! i) \<and> in_range 200 (bucket_range i) \<and>
      (\<forall>j<5. Categoria_Antiguedad 200 = Some (labels ! j) \<longrightarrow> j = i))"
  using classify_one_category_in_range [of 200] by simp

section \<open>The counts per category\<close>

lemma count_list_map:
  "count_list (map f xs) y = length (filter (\<lambda>x. f x = y) xs)"
  by (induction xs) auto

lemma filter_key_singleton:
  "distinct xs \<Longrightarrow> inj_on f (set xs) \<Longrightarrow> k \<in> set xs \<Longrightarrow> filter (\<lambda>x. f k = f x) xs = [k]"
proof (induction xs)
  case Nil
  then show ?case by simp
next
  case (Cons a xs)
  show ?case
  proof (cases "k = a")
    case True
    have "filter (\<lambda>x. f a = f x) xs = []"
      using Cons.prems(1,2) by (auto simp: filter_empty_conv inj_on_def)
    with True show ?thesis by simp
  next
    case False
    with Cons.prems have "k \<in> set xs" "f k \<noteq> f a"
      by (auto simp: inj_on_def)
    moreover have "filter (\<lambda>x. f k = f x) xs = [k]"
      using Cons.prems \<open>k \<in> set xs\<close> by (intro Cons.IH) auto
    ultimately show ?thesis by simp
  qed
qed

lemma sort_key_permutation:
  assumes "mset xs = mset ys" and "distinct ys" and "inj_on f (set ys)" and "sorted (map f ys)"
  shows "sort_key f xs = ys"
proof (rule properties_for_sort_key)
  show "mset ys = mset xs" using assms(1) by simp
  show "sorted (map f ys)" by (rule assms(4))
  fix k assume k: "k \<in> set ys"
  have sets: "set xs = set ys" using assms(1) by (rule mset_eq_setD)
  have dx: "distinct xs" using assms(1,2) by (metis mset_eq_imp_distinct_iff)
  have "filter (\<lambda>x. f k = f x) ys = [k]"
    using assms(2,3) k by (rule filter_key_singleton)
  moreover have "filter (\<lambda>x. f k = f x) xs = [k]"
    using dx assms(3) k unfolding sets[symmetric] by (intro filter_key_singleton) (auto simp: sets)
  ultimately show "filter (\<lambda>x. f k = f x) ys = filter (\<lambda>x. f k = f x) xs" by simp
qed

lemma mset_sort_values_desc: "mset (sort_values_desc key rows) = mset rows"
  by (simp add: sort_values_desc_def)

lemma sorted_sort_values_desc:
  "sorted_wrt (\<lambda>a b. key a \<ge> key b) (sort_values_desc key rows)"
proof -
  have "sorted (map key (sort_key key (rev rows)))" by simp
  then have "sorted_wrt (\<lambda>a b. key a \<le> key b) (sort_key key (rev rows))"
    by (simp add: sorted_map)
  then show ?thesis
    by (simp add: sort_values_desc_def sorted_wrt_rev)
qed

lemma bincount_labels_distinct: "distinct (bincount labels col)"
  by (simp add: bincount_def distinct_map distinct_labels inj_on_def)

lemma categoria_key_inj: "inj_on (categoria_key labels) (set (bincount labels col))"
  by (simp add: bincount_def labels_def categoria_key_def)

lemma categoria_key_sorted: "sorted (map (categoria_key labels) (bincount labels col))"
  by (simp add: bincount_def labels_def categoria_key_def)

text \<open>
  Sorting by category gives the counts of the five labels in the order of \<open>labels\<close>
  from any arrangement of these five rows: the keys are five different codes. So the
  order in which \<open>value_counts\<close> leaves the rows, equal counts included, does not show in
  \<open>df_conteo\<close>.
\<close>

lemma sort_categoria_any_order:
  "mset rows = mset (bincount labels col) \<Longrightarrow>
   sort_key (categoria_key labels) rows = bincount labels col"
  by (rule sort_key_permutation)
     (simp_all add: bincount_labels_distinct categoria_key_inj categoria_key_sorted)

lemma df_conteo_bincount: "df_conteo df = bincount labels (columna_categoria df)"
  unfolding df_conteo_def value_counts_def
  by (rule sort_categoria_any_order) (simp add: mset_sort_values_desc)

lemma length_filter_disj:
  "(\<And>x. x \<in> set xs \<Longrightarrow> \<not> (P x \<and> Q x)) \<Longrightarrow>
   length (filter (\<lambda>x. P x \<or> Q x) xs) = length (filter P xs) + length (filter Q xs)"
  by (induction xs) auto

lemma sum_count_list_Some:
  "distinct cs \<Longrightarrow>
   sum_list (map (\<lambda>c. count_list col (Some c)) cs) = length (filter (\<lambda>v. v \<in> Some ` set cs) col)"
proof (induction cs)
  case Nil
  then show ?case by simp
next
  case (Cons a cs)
  have "length (filter (\<lambda>v. v = Some a \<or> v \<in> Some ` set cs) col) =
        length (filter (\<lambda>v. v = Some a) col) + length (filter (\<lambda>v. v \<in> Some ` set cs) col)"
    using Cons.prems by (intro length_filter_disj) auto
  moreover have "count_list col (Some a) = length (filter (\<lambda>v. v = Some a) col)"
    by (induction col) auto
  ultimately show ?case
    using Cons by simp
qed

lemma sum_df_conteo:
  "sum_list (map snd (df_conteo R)) = length (filter (\<lambda>r. 0 \<le> Dias_Ultima_Factura r) R)"
proof -
  have "sum_list (map snd (df_conteo R)) =
        sum_list (map (\<lambda>c. count_list (columna_categoria R) (Some c)) labels)"
    by (simp add: df_conteo_bincount bincount_def comp_def)
  also have "\<dots> = length (filter (\<lambda>v. v \<in> Some ` set labels) (columna_categoria R))"
    using distinct_labels by (rule sum_count_list_Some)
  also have "\<dots> = length (filter (\<lambda>r. 0 \<le> Dias_Ultima_Factura r) R)"
    by (simp add: columna_categoria_def filter_map comp_def Categoria_Antiguedad_Some_iff)
  finally show ?thesis .
qed

text \<open>
  Claim C2. When every row has a non-negative \<open>Dias_Ultima_Factura\<close>, the counts of
  \<open>df_conteo\<close> add up to the number of rows: every row is counted in exactly one
  category.
\<close>

theorem aggregate_counts_sum:
  "\<forall>r\<in>set R. 0 \<le> Dias_Ultima_Factura r \<Longrightarrow> sum_list (map snd (df_conteo R)) = length R"
  by (simp add: sum_df_conteo)

theorem aggregate_counts_sum_witness:
  "0 \<le> Dias_Ultima_Factura fila_10 \<and> 0 \<le> Dias_Ultima_Factura fila_800 \<and>
   sum_list (map snd (df_conteo [fila_10, fila_800])) = 2"
proof -
  have h: "\<forall>r\<in>set [fila_10, fila_800]. 0 \<le> Dias_Ultima_Factura r"
    by (simp add: fila_10_def fila_800_def)
  from aggregate_counts_sum [OF h] h show ?thesis by simp
qed

text \<open>
  Claim C3. The rows of \<open>df_conteo\<close> come in the fixed order of the five labels, whatever
  the counts are.
\<close>

theorem aggregate_fixed_order: "map fst (df_conteo R) = labels"
  by (simp add: df_conteo_bincount bincount_def comp_def)

text \<open>
  Claim C4, as the code has it. \<open>df_conteo\<close> has one row for each of the five labels, in
  their order, and its count is the number of rows of the inventory in that category: a
  category that no row has is emitted with count 0, it is not omitted.
\<close>

theorem aggregate_all_categories:
  "df_conteo R =
     map (\<lambda>c. (c, length (filter (\<lambda>r. Categoria_Antiguedad (Dias_Ultima_Factura r) = Some c) R)))
       labels"
  by (simp add: df_conteo_bincount bincount_def columna_categoria_def count_list_map)

text \<open>
  Claim C4 as stated fails: with one row in the first bucket and one in the last, the
  three categories in between have no row of the inventory and still a row of
  \<open>df_conteo\<close>, with count 0.
\<close>

theorem aggregate_zero_count_row_emitted:
  "count_list (columna_categoria [fila_10, fila_800]) (Some ''3-6 Meses (Monitoreo)'') = 0 \<and>
   (''3-6 Meses (Monitoreo)'', 0) \<in> set (df_conteo [fila_10, fila_800]) \<and>
   df_conteo [fila_10, fila_800] =
     [(''0-3 Meses (Activo)'', 1),
      (''3-6 Meses (Monitoreo)'', 0),
      (''6-12 Meses (Riesgo)'', 0),
      (''12-24 Meses (Obsoleto)'', 0),
      (''+24 Meses (Cr'' @ [CHR 0xC3, CHR 0xAD] @ ''tico)'', 1)]"
  by (simp add: df_conteo_bincount bincount_def columna_categoria_def fila_10_def fila_800_def
      Categoria_Antiguedad_table labels_def)

text \<open>
  Claim C10. A negative number of days gets no category (a missing value, not an error).
  The counts of \<open>df_conteo\<close> add up to the number of rows with non-negative days, so a
  row with negative days is in no count, and an inventory that has one has counts that
  add up to less than its number of rows.
\<close>

theorem negative_days_unclassified_uncounted:
  "(d < 0 \<longrightarrow> Categoria_Antiguedad d = None) \<and>
   sum_list (map snd (df_conteo R)) = length (filter (\<lambda>r. 0 \<le> Dias_Ultima_Factura r) R) \<and>
   ((\<exists>r\<in>set R. Dias_Ultima_Factura r < 0) \<longrightarrow> sum_list (map snd (df_conteo R)) < length R)"
proof (intro conjI impI)
  assume "d < 0"
  then show "Categoria_Antiguedad d = None" by (simp add: Categoria_Antiguedad_None_iff)
next
  show "sum_list (map snd (df_conteo R)) = length (filter (\<lambda>r. 0 \<le> Dias_Ultima_Factura r) R)"
    by (rule sum_df_conteo)
next
  assume "\<exists>r\<in>set R. Dias_Ultima_Factura r < 0"
  then obtain r where "r \<in> set R" "\<not> 0 \<le> Dias_Ultima_Factura r" by auto
  then have "length (filter (\<lambda>r. 0 \<le> Dias_Ultima_Factura r) R) < length R"
    by (rule length_filter_less)
  then show "sum_list (map snd (df_conteo R)) < length R"
    by (simp add: sum_df_conteo)
qed

theorem negative_days_unclassified_uncounted_witness:
  "Dias_Ultima_Factura fila_negativa < 0 \<and>
   Categoria_Antiguedad (Dias_Ultima_Factura fila_negativa) = None \<and>
   sum_list (map snd (df_conteo [fila_10, fila_negativa])) = 1 \<and>
   sum_list (map snd (df_conteo [fila_10, fila_negativa])) < length [fila_10, fila_negativa]"
proof -
  have n: "Dias_Ultima_Factura fila_negativa < 0" by (simp add: fila_negativa_def)
  then have b: "\<exists>r\<in>set [fila_10, fila_negativa]. Dias_Ultima_Factura r < 0" by simp
  have f: "length (filter (\<lambda>r. 0 \<le> Dias_Ultima_Factura r) [fila_10, fila_negativa]) = 1"
    by (simp add: fila_negativa_def fila_10_def)
  from negative_days_unclassified_uncounted [of "Dias_Ultima_Factura fila_negativa" "[fila_10, fila_negativa]"]
    n b f show ?thesis by simp
qed

section \<open>The detail of a selected category\<close>

lemma index_of_None_iff: "index_of xs y = None \<longleftrightarrow> y \<notin> set xs"
  by (induction xs) auto

lemma index_of_Some: "index_of xs x = Some i \<Longrightarrow> xs ! i = x"
  by (induction xs arbitrary: i) (auto split: if_splits)

lemma index_of_eq_iff:
  assumes "x \<in> set xs"
  shows "index_of xs x = index_of xs y \<longleftrightarrow> x = y"
proof
  assume eq: "index_of xs x = index_of xs y"
  from assms obtain i where i: "index_of xs x = Some i"
    by (cases "index_of xs x") (simp_all add: index_of_None_iff)
  then have "xs ! i = x" by (rule index_of_Some)
  moreover from i eq have "xs ! i = y" by (simp add: index_of_Some)
  ultimately show "x = y" by simp
qed simp

lemma categorical_eq_iff:
  "categorical_eq labels (Categoria_Antiguedad d) c \<longleftrightarrow> Categoria_Antiguedad d = Some c"
proof (cases "Categoria_Antiguedad d")
  case None
  then show ?thesis by (simp add: categorical_eq_def)
next
  case (Some c')
  then have "c' \<in> set labels" by (rule Categoria_Antiguedad_in_labels)
  then show ?thesis
    using Some by (auto simp: categorical_eq_def index_of_eq_iff)
qed

lemma df_detalle_filter:
  "df_detalle c df = filter (\<lambda>r. Categoria_Antiguedad (Dias_Ultima_Factura r) = Some c) df"
  by (simp add: df_detalle_def categorical_eq_iff)

lemma detalle_sin_datos:
  "df_detalle sel df = [] \<Longrightarrow> detalle ops sel df = encabezado sel @ [St_info mensaje_sin_datos]"
  by (simp add: detalle_def)

lemma detalle_con_datos:
  "df_detalle sel df \<noteq> [] \<Longrightarrow>
   detalle ops sel df =
     encabezado sel @ metricas ops (df_detalle sel df) @
     [St_dataframe (tabla (df_detalle sel df))] @ insight sel"
  by (simp add: detalle_def Let_def)

lemma insight_labels:
  "insight (labels ! 0) = [St_success mensaje_activo]"
  "insight (labels ! 1) = []"
  "insight (labels ! 2) = []"
  "insight (labels ! 3) = []"
  "insight (labels ! 4) = [St_error mensaje_critico]"
  by (simp_all add: insight_def labels_def)

text \<open>
  Claim C5. When no row of the inventory has the selected category, the detail is the
  header followed by the message that there are no data for the selection, and no metric
  is rendered; so it is for an empty inventory.
\<close>

theorem detail_no_match_no_data:
  "((\<forall>r\<in>set R. Categoria_Antiguedad (Dias_Ultima_Factura r) \<noteq> Some c) \<longrightarrow>
      detalle ops c R = encabezado c @ [St_info mensaje_sin_datos] \<and>
      (\<forall>l v. St_metric l v \<notin> set (detalle ops c R))) \<and>
   detalle ops c [] = encabezado c @ [St_info mensaje_sin_datos]"
proof (intro conjI impI)
  assume "\<forall>r\<in>set R. Categoria_Antiguedad (Dias_Ultima_Factura r) \<noteq> Some c"
  then have "df_detalle c R = []"
    by (simp add: df_detalle_filter filter_empty_conv)
  then show out: "detalle ops c R = encabezado c @ [St_info mensaje_sin_datos]"
    by (rule detalle_sin_datos)
  then show "\<forall>l v. St_metric l v \<notin> set (detalle ops c R)"
    by (simp add: encabezado_def)
next
  have "df_detalle c [] = []" by (simp add: df_detalle_def)
  then show "detalle ops c [] = encabezado c @ [St_info mensaje_sin_datos]"
    by (rule detalle_sin_datos)
qed

theorem detail_no_match_no_data_witness:
  "Categoria_Antiguedad (Dias_Ultima_Factura fila_10) \<noteq> Some (labels ! 4) \<and>
   detalle ops_ejemplo (labels ! 4) [fila_10] =
     encabezado (labels ! 4) @ [St_info mensaje_sin_datos]"
proof -
  have h: "Categoria_Antiguedad (Dias_Ultima_Factura fila_10) \<noteq> Some (labels ! 4)"
    by (simp add: fila_10_def Categoria_Antiguedad_table labels_def)
  then have "\<forall>r\<in>set [fila_10]. Categoria_Antiguedad (Dias_Ultima_Factura r) \<noteq> Some (labels ! 4)"
    by simp
  with detail_no_match_no_data [of "[fila_10]" "labels ! 4" ops_ejemplo] h
  show ?thesis by blast
qed

text \<open>
  Claim C6. A selected label that is not one of the five labels matches no row, whatever
  the inventory: the comparison of line 91 is False in every row and raises nothing, and
  the detail is the header followed by the message that there are no data.
\<close>

theorem detail_unknown_label_no_data:
  "s \<notin> set labels \<Longrightarrow> detalle ops s R = encabezado s @ [St_info mensaje_sin_datos]"
proof -
  assume "s \<notin> set labels"
  then have "df_detalle s R = []"
    by (simp add: df_detalle_def categorical_eq_def)
  then show ?thesis by (rule detalle_sin_datos)
qed

theorem detail_unknown_label_no_data_witness:
  "''Sin categoria'' \<notin> set labels \<and>
   detalle ops_ejemplo ''Sin categoria'' [fila_10, fila_800] =
     encabezado ''Sin categoria'' @ [St_info mensaje_sin_datos]"
proof -
  have h: "''Sin categoria'' \<notin> set labels" by (simp add: labels_def)
  from detail_unknown_label_no_data [OF h] h show ?thesis by simp
qed

text \<open>
  The first metric of a non-empty detail is the number of rows of the inventory in the
  selected category. The other two metrics are float64 computations.
\<close>

lemma detalle_sku_count:
  "df_detalle c R \<noteq> [] \<Longrightarrow>
   St_metric (''SKUs en Categor'' @ [CHR 0xC3, CHR 0xAD] @ ''a'')
     (IntValue (length (filter (\<lambda>r. Categoria_Antiguedad (Dias_Ultima_Factura r) = Some c) R)))
   \<in> set (detalle ops c R)"
  by (simp add: detalle_con_datos metricas_def df_detalle_filter)

text \<open>
  Claim C8. The rows of the detail are exactly the rows of the inventory whose category
  is the selected one; the table shows them sorted by \<open>Dias_Ultima_Factura\<close>,
  descending, and a non-empty detail renders that table.
\<close>

theorem detail_rows_filtered_sorted:
  "df_detalle c R = filter (\<lambda>r. Categoria_Antiguedad (Dias_Ultima_Factura r) = Some c) R \<and>
   mset (tabla (df_detalle c R)) =
     mset (filter (\<lambda>r. Categoria_Antiguedad (Dias_Ultima_Factura r) = Some c) R) \<and>
   sorted_wrt (\<lambda>a b. Dias_Ultima_Factura a \<ge> Dias_Ultima_Factura b) (tabla (df_detalle c R)) \<and>
   (df_detalle c R \<noteq> [] \<longrightarrow> St_dataframe (tabla (df_detalle c R)) \<in> set (detalle ops c R))"
  by (simp add: df_detalle_filter [symmetric] tabla_def mset_sort_values_desc
      sorted_sort_values_desc detalle_con_datos)

theorem detail_rows_filtered_sorted_witness:
  "df_detalle (labels ! 0) [fila_10, fila_800, fila_10\<lparr>Dias_Ultima_Factura := 50\<rparr>] \<noteq> [] \<and>
   tabla (df_detalle (labels ! 0) [fila_10, fila_800, fila_10\<lparr>Dias_Ultima_Factura := 50\<rparr>]) =
     [fila_10\<lparr>Dias_Ultima_Factura := 50\<rparr>, fila_10] \<and>
   St_dataframe [fila_10\<lparr>Dias_Ultima_Factura := 50\<rparr>, fila_10] \<in>
     set (detalle ops_ejemplo (labels ! 0) [fila_10, fila_800, fila_10\<lparr>Dias_Ultima_Factura := 50\<rparr>])"
proof -
  let ?R = "[fila_10, fila_800, fila_10\<lparr>Dias_Ultima_Factura := 50\<rparr>]"
  have d: "df_detalle (labels ! 0) ?R = [fila_10, fila_10\<lparr>Dias_Ultima_Factura := 50\<rparr>]"
    by (simp add: df_detalle_filter fila_10_def fila_800_def Categoria_Antiguedad_table labels_def)
  have t: "tabla [fila_10, fila_10\<lparr>Dias_Ultima_Factura := 50\<rparr>] = [fila_10\<lparr>Dias_Ultima_Factura := 50\<rparr>, fila_10]"
    by (simp add: tabla_def sort_values_desc_def fila_10_def)
  have "df_detalle (labels ! 0) ?R \<noteq> [] \<longrightarrow>
        St_dataframe (tabla (df_detalle (labels ! 0) ?R)) \<in> set (detalle ops_ejemplo (labels ! 0) ?R)"
    using detail_rows_filtered_sorted [of "labels ! 0" ?R ops_ejemplo] by blast
  then show ?thesis by (simp add: d t)
qed

text \<open>
  Claim C9. A non-empty detail is the detail of one of the five labels. For the last
  label (+24 months, critical) it ends with the error message that asks for commercial
  action (sell off or return to the supplier); for the first label (0-3 months, active)
  it ends with the success message that asks to review the reorder points; for the three
  labels in between it ends with the table and has no message.
\<close>

theorem detail_insight_by_tier:
  "df_detalle c R \<noteq> [] \<Longrightarrow>
     c \<in> set labels \<and>
     (c = labels ! 4 \<longrightarrow>
        detalle ops c R =
          encabezado c @ metricas ops (df_detalle c R) @
          [St_dataframe (tabla (df_detalle c R)), St_error mensaje_critico]) \<and>
     (c = labels ! 0 \<longrightarrow>
        detalle ops c R =
          encabezado c @ metricas ops (df_detalle c R) @
          [St_dataframe (tabla (df_detalle c R)), St_success mensaje_activo]) \<and>
     (c \<in> {labels ! 1, labels ! 2, labels ! 3} \<longrightarrow>
        detalle ops c R =
          encabezado c @ metricas ops (df_detalle c R) @
          [St_dataframe (tabla (df_detalle c R))])"
proof -
  assume ne: "df_detalle c R \<noteq> []"
  then obtain r where "r \<in> set R" "Categoria_Antiguedad (Dias_Ultima_Factura r) = Some c"
    by (auto simp: df_detalle_filter filter_empty_conv)
  then have "c \<in> set labels" by (auto dest: Categoria_Antiguedad_in_labels)
  moreover have "insight (labels ! 1) = []" "insight (labels ! 2) = []" "insight (labels ! 3) = []"
    "insight (labels ! 0) = [St_success mensaje_activo]"
    "insight (labels ! 4) = [St_error mensaje_critico]"
    by (rule insight_labels)+
  ultimately show ?thesis
    using detalle_con_datos [OF ne, of ops] by auto
qed

theorem detail_insight_by_tier_witness:
  "df_detalle (labels ! 4) [fila_10, fila_800] \<noteq> [] \<and>
   detalle ops_ejemplo (labels ! 4) [fila_10, fila_800] =
     encabezado (labels ! 4) @ metricas ops_ejemplo [fila_800] @
     [St_dataframe [fila_800], St_error mensaje_critico]"
proof -
  have d: "df_detalle (labels ! 4) [fila_10, fila_800] = [fila_800]"
    by (simp add: df_detalle_filter fila_10_def fila_800_def Categoria_Antiguedad_table labels_def)
  then have ne: "df_detalle (labels ! 4) [fila_10, fila_800] \<noteq> []" by simp
  have t: "tabla [fila_800] = [fila_800]"
    by (simp add: tabla_def sort_values_desc_def)
  from detail_insight_by_tier [OF ne, of ops_ejemplo] d t ne show ?thesis by simp
qed

end
